theory Spec2Isabelle
  imports Complex_Main
begin

section \<open>Averaged DC-DC converter models of \<^verbatim>\<open>src/main.py\<close>\<close>

text \<open>
  The module defines three derivative functions, \<^verbatim>\<open>buck\<close>, \<^verbatim>\<open>buck_boost\<close> and
  \<^verbatim>\<open>buck_boost_clamped\<close>, each of the shape \<^verbatim>\<open>f(x, t, L, R, C, Uav, E)\<close>,
  and a \<^verbatim>\<open>main\<close> that hands \<^verbatim>\<open>buck\<close> to \<^verbatim>\<open>scipy.integrate.odeint\<close>.

  Modelling decisions.
  \<^item> Numbers are Python floats in the source.  In the first model they are
    idealised as \<^typ>\<open>real\<close>: rounding, overflow, underflow, infinities and NaN are
    not represented, so \<^verbatim>\<open>v / R / C\<close> and \<^verbatim>\<open>v / (R * C)\<close> denote the same
    number there, and a product of nonzero numbers is nonzero.  This model states
    the formulas the functions compute.
  \<^item> Statements that depend on the special values are made on a second model of
    \<^verbatim>\<open>buck_boost_clamped\<close>, over floats that are a real number in the double
    range, \<^verbatim>\<open>inf\<close>, \<^verbatim>\<open>-inf\<close> or \<^verbatim>\<open>nan\<close>.
  \<^item> Python's \<^verbatim>\<open>/\<close> on floats raises \<^verbatim>\<open>ZeroDivisionError\<close> for a zero divisor,
    whereas \<open>x / 0 = 0\<close> in HOL.  Every division of the source is therefore a
    \<open>truediv\<close> returning a sum, and the functions return \<open>error + state\<close>.
    Under numpy scalars, which is what \<^verbatim>\<open>odeint\<close> passes as the state, a zero
    divisor gives \<^verbatim>\<open>inf\<close> or \<^verbatim>\<open>nan\<close> and a warning instead.  The first division
    of each function, \<^verbatim>\<open>E * Uav / L\<close>, involves the parameters only, which are
    Python floats on every call path.
  \<^item> The state \<^verbatim>\<open>x\<close> is unpacked as \<^verbatim>\<open>i, v = x\<close>; it is a pair.
  \<^item> The argument \<^verbatim>\<open>t\<close> is accepted and never read, as in the source.
  \<^item> \<^verbatim>\<open>odeint\<close> is an external solver and is not modelled.
\<close>

subsection \<open>Data\<close>

datatype error = ZeroDivisionError

type_synonym state = "real \<times> real"

subsection \<open>Python arithmetic that can fail\<close>

definition truediv :: "real \<Rightarrow> real \<Rightarrow> error + real" where
  "truediv a b = (if b = 0 then Inl ZeroDivisionError else Inr (a / b))"

text \<open>Sequencing: an exception raised by the first computation ends the call.\<close>

definition and_then :: "error + 'a \<Rightarrow> ('a \<Rightarrow> error + 'b) \<Rightarrow> error + 'b" where
  "and_then m f = (case m of Inl e \<Rightarrow> Inl e | Inr a \<Rightarrow> f a)"

subsection \<open>The derivative functions\<close>

text \<open>
  \<^verbatim>\<open>
  def buck(x,t, L, R, C, Uav, E):
      i,v = x
      di_dt = E * Uav / L - v / L
      dv_dt = i / C - v / R / C
      return [di_dt, dv_dt]
  \<close>
  Operands are evaluated left to right; \<^verbatim>\<open>*\<close> and \<^verbatim>\<open>/\<close> associate to the left.
\<close>

definition buck :: "state \<Rightarrow> real \<Rightarrow> real \<Rightarrow> real \<Rightarrow> real \<Rightarrow> real \<Rightarrow> real \<Rightarrow> error + state" where
  "buck x t L R C Uav E =
     (case x of (i, v) \<Rightarrow>
        and_then (truediv (E * Uav) L) (\<lambda>a.
        and_then (truediv v L) (\<lambda>b.
        let di_dt = a - b in
        and_then (truediv i C) (\<lambda>c.
        and_then (truediv v R) (\<lambda>d.
        and_then (truediv d C) (\<lambda>e.
        let dv_dt = c - e in
        Inr (di_dt, dv_dt)))))))"

text \<open>
  \<^verbatim>\<open>
  def buck_boost(x, t, L, R, C, Uav, E):
      i, v = x
      di_dt = (E * Uav / L) + (1 - Uav) * v / L
      dv_dt = - (1 - Uav) * i / C - v / (R * C)
      return [di_dt, dv_dt]
  \<close>
  The unary minus binds tighter than \<^verbatim>\<open>*\<close>: the first term of \<^verbatim>\<open>dv_dt\<close> is
  \<^verbatim>\<open>((-(1 - Uav)) * i) / C\<close>.
\<close>

definition buck_boost :: "state \<Rightarrow> real \<Rightarrow> real \<Rightarrow> real \<Rightarrow> real \<Rightarrow> real \<Rightarrow> real \<Rightarrow> error + state" where
  "buck_boost x t L R C Uav E =
     (case x of (i, v) \<Rightarrow>
        and_then (truediv (E * Uav) L) (\<lambda>a.
        and_then (truediv ((1 - Uav) * v) L) (\<lambda>b.
        let di_dt = a + b in
        and_then (truediv (- (1 - Uav) * i) C) (\<lambda>c.
        and_then (truediv v (R * C)) (\<lambda>d.
        let dv_dt = c - d in
        Inr (di_dt, dv_dt))))))"

text \<open>
  \<^verbatim>\<open>
  def buck_boost_clamped(x, t, L, R, C, Uav, E):
      i, v = x
      di_dt = (E * Uav) / L + (1 - Uav) * v / L
      i_eff = max(i, 0.0)
      dv_dt = - (1 - Uav) * i_eff / C - v / (R * C)
      if i <= 0.0 and di_dt < 0.0:
          di_dt = 0.0
      return [di_dt, dv_dt]
  \<close>
  The reassignment of \<^verbatim>\<open>di_dt\<close> is the last binding of the model.
\<close>

definition buck_boost_clamped :: "state \<Rightarrow> real \<Rightarrow> real \<Rightarrow> real \<Rightarrow> real \<Rightarrow> real \<Rightarrow> real \<Rightarrow> error + state" where
  "buck_boost_clamped x t L R C Uav E =
     (case x of (i, v) \<Rightarrow>
        and_then (truediv (E * Uav) L) (\<lambda>a.
        and_then (truediv ((1 - Uav) * v) L) (\<lambda>b.
        let di_dt = a + b in
        let i_eff = max i 0 in
        and_then (truediv (- (1 - Uav) * i_eff) C) (\<lambda>c.
        and_then (truediv v (R * C)) (\<lambda>d.
        let dv_dt = c - d in
        let di_dt = (if i \<le> 0 \<and> di_dt < 0 then 0 else di_dt) in
        Inr (di_dt, dv_dt))))))"

subsection \<open>Projection of a result\<close>

text \<open>The first component of the returned list, when the call returns.\<close>

definition di_dt_of :: "error + state \<Rightarrow> error + real" where
  "di_dt_of r = map_sum id fst r"

subsection \<open>Floats with their special values\<close>

text \<open>
  A Python float is a finite number, \<^verbatim>\<open>inf\<close>, \<^verbatim>\<open>-inf\<close> or \<^verbatim>\<open>nan\<close>.  The
  result of an operation on finite operands is brought into the double range by
  \<open>fl\<close>: under round-to-nearest a real result of magnitude at least
  \<open>2 ^ 1024 - 2 ^ 970\<close> (half an ulp above the largest double) becomes an
  infinity, and one of magnitude at most \<open>2 ^ -1075\<close> (half the smallest
  subnormal) becomes zero.  Between the two thresholds the result is kept exact:
  rounding to 53 bits is not modelled, nor is the sign of zero.
\<close>

datatype pyfloat = Fin real | PInf | NInf | NaN

definition overflow_threshold :: real where
  "overflow_threshold = 2 ^ 1024 - 2 ^ 970"

definition underflow_threshold :: real where
  "underflow_threshold = 1 / 2 ^ 1075"

definition fl :: "real \<Rightarrow> pyfloat" where
  "fl r = (if overflow_threshold \<le> r then PInf
           else if r \<le> - overflow_threshold then NInf
           else if \<bar>r\<bar> \<le> underflow_threshold then Fin 0
           else Fin r)"

text \<open>An infinity times or divided by a finite \<open>s\<close>; \<^verbatim>\<open>inf * 0.0\<close> is \<^verbatim>\<open>nan\<close>.\<close>

definition signed_inf :: "real \<Rightarrow> pyfloat" where
  "signed_inf s = (if 0 < s then PInf else if s < 0 then NInf else NaN)"

fun fneg :: "pyfloat \<Rightarrow> pyfloat" where
  "fneg (Fin a) = Fin (- a)"
| "fneg PInf = NInf"
| "fneg NInf = PInf"
| "fneg NaN = NaN"

fun fadd :: "pyfloat \<Rightarrow> pyfloat \<Rightarrow> pyfloat" where
  "fadd NaN y = NaN"
| "fadd x NaN = NaN"
| "fadd (Fin a) (Fin b) = fl (a + b)"
| "fadd PInf NInf = NaN"
| "fadd NInf PInf = NaN"
| "fadd PInf y = PInf"
| "fadd NInf y = NInf"
| "fadd x PInf = PInf"
| "fadd x NInf = NInf"

definition fsub :: "pyfloat \<Rightarrow> pyfloat \<Rightarrow> pyfloat" where
  "fsub x y = fadd x (fneg y)"

fun fmul :: "pyfloat \<Rightarrow> pyfloat \<Rightarrow> pyfloat" where
  "fmul NaN y = NaN"
| "fmul x NaN = NaN"
| "fmul (Fin a) (Fin b) = fl (a * b)"
| "fmul (Fin a) PInf = signed_inf a"
| "fmul (Fin a) NInf = signed_inf (- a)"
| "fmul PInf (Fin b) = signed_inf b"
| "fmul NInf (Fin b) = signed_inf (- b)"
| "fmul PInf PInf = PInf"
| "fmul PInf NInf = NInf"
| "fmul NInf PInf = NInf"
| "fmul NInf NInf = PInf"

text \<open>
  Python's float \<^verbatim>\<open>/\<close> raises when the divisor compares equal to \<^verbatim>\<open>0.0\<close>,
  whatever the dividend; every other case is the IEEE quotient and does not
  raise, overflow included.
\<close>

fun fdiv :: "pyfloat \<Rightarrow> pyfloat \<Rightarrow> error + pyfloat" where
  "fdiv x (Fin b) =
     (if b = 0 then Inl ZeroDivisionError
      else case x of
        Fin a \<Rightarrow> Inr (fl (a / b))
      | PInf \<Rightarrow> Inr (signed_inf b)
      | NInf \<Rightarrow> Inr (signed_inf (- b))
      | NaN \<Rightarrow> Inr NaN)"
| "fdiv (Fin a) PInf = Inr (Fin 0)"
| "fdiv (Fin a) NInf = Inr (Fin 0)"
| "fdiv x y = Inr NaN"

text \<open>Comparisons: every comparison with \<^verbatim>\<open>nan\<close> is false.\<close>

fun flt :: "pyfloat \<Rightarrow> pyfloat \<Rightarrow> bool" where
  "flt NaN y = False"
| "flt x NaN = False"
| "flt (Fin a) (Fin b) = (a < b)"
| "flt x NInf = False"
| "flt PInf y = False"
| "flt NInf y = True"
| "flt x PInf = True"

fun fle :: "pyfloat \<Rightarrow> pyfloat \<Rightarrow> bool" where
  "fle NaN y = False"
| "fle x NaN = False"
| "fle (Fin a) (Fin b) = (a \<le> b)"
| "fle NInf y = True"
| "fle x PInf = True"
| "fle PInf y = False"
| "fle x NInf = False"

text \<open>
  The builtin \<^verbatim>\<open>max(x, y)\<close> keeps its first argument unless the second is
  greater (\<^verbatim>\<open>y > x\<close>).
\<close>

definition pymax :: "pyfloat \<Rightarrow> pyfloat \<Rightarrow> pyfloat" where
  "pymax x y = (if flt x y then y else x)"

text \<open>
  \<^verbatim>\<open>buck_boost_clamped\<close> once more, statement by statement, on these floats.
\<close>

definition buck_boost_clamped_float ::
  "pyfloat \<times> pyfloat \<Rightarrow> pyfloat \<Rightarrow> pyfloat \<Rightarrow> pyfloat \<Rightarrow> pyfloat \<Rightarrow> pyfloat \<Rightarrow> pyfloat
     \<Rightarrow> error + pyfloat \<times> pyfloat" where
  "buck_boost_clamped_float x t L R C Uav E =
     (case x of (i, v) \<Rightarrow>
        and_then (fdiv (fmul E Uav) L) (\<lambda>a.
        and_then (fdiv (fmul (fsub (Fin 1) Uav) v) L) (\<lambda>b.
        let di_dt = fadd a b in
        let i_eff = pymax i (Fin 0) in
        and_then (fdiv (fmul (fneg (fsub (Fin 1) Uav)) i_eff) C) (\<lambda>c.
        and_then (fdiv v (fmul R C)) (\<lambda>d.
        let dv_dt = fsub c d in
        let di_dt = (if fle i (Fin 0) \<and> flt di_dt (Fin 0) then Fin 0 else di_dt) in
        Inr (di_dt, dv_dt))))))"

section \<open>Evaluation lemmas\<close>

text \<open>
  Each function of the model over the reals, written out.  There a call raises
  exactly when one of its divisors is zero.
\<close>

lemma buck_eval:
  "buck (i, v) t L R C Uav E =
     (if L = 0 \<or> R = 0 \<or> C = 0 then Inl ZeroDivisionError
      else Inr (E * Uav / L - v / L, i / C - v / R / C))"
  by (simp add: buck_def and_then_def truediv_def)

lemma buck_boost_eval:
  "buck_boost (i, v) t L R C Uav E =
     (if L = 0 \<or> R = 0 \<or> C = 0 then Inl ZeroDivisionError
      else Inr (E * Uav / L + (1 - Uav) * v / L, - (1 - Uav) * i / C - v / (R * C)))"
  by (simp add: buck_boost_def and_then_def truediv_def)

lemma buck_boost_clamped_eval:
  "buck_boost_clamped (i, v) t L R C Uav E =
     (if L = 0 \<or> R = 0 \<or> C = 0 then Inl ZeroDivisionError
      else Inr (if i \<le> 0 \<and> E * Uav / L + (1 - Uav) * v / L < 0 then 0
                else E * Uav / L + (1 - Uav) * v / L,
                - (1 - Uav) * max i 0 / C - v / (R * C)))"
  by (simp add: buck_boost_clamped_def and_then_def truediv_def Let_def)

text \<open>A float that is not below zero is \<^verbatim>\<open>nan\<close> or at least zero.\<close>

lemma not_flt_zero: "\<not> flt x (Fin 0) \<Longrightarrow> x = NaN \<or> fle (Fin 0) x"
  by (cases x) auto

section \<open>The derivative functions against their specification\<close>

text \<open>
  The parameter values used in the closed instances are those of \<^verbatim>\<open>main\<close>:
  \<^verbatim>\<open>L = 1e-3\<close>, \<^verbatim>\<open>R = 47\<close>, \<^verbatim>\<open>C = 50e-6\<close>, \<^verbatim>\<open>Uav = 0.5\<close>, \<^verbatim>\<open>E = 12\<close>,
  written as the fractions \<open>1 / 1000\<close>, \<open>47\<close>, \<open>50 / 1000000\<close>, \<open>1 / 2\<close>, \<open>12\<close>.
\<close>

text \<open>
  Claim C1.  For nonzero \<open>L\<close>, \<open>R\<close>, \<open>C\<close> the current derivative returned by
  \<open>buck_boost_clamped\<close> is obtained from \<open>(E * Uav) / L + (1 - Uav) * v / L\<close>,
  a value computed without the clamped current: it is replaced by \<open>0\<close> exactly
  when \<open>i \<le> 0\<close> and that value is strictly negative, and is returned unchanged
  otherwise, in particular when \<open>i \<le> 0\<close> and the value is non-negative.
\<close>

theorem buck_boost_clamped_di_dt_clamp:
  assumes "L \<noteq> 0" and "R \<noteq> 0" and "C \<noteq> 0"
  shows "di_dt_of (buck_boost_clamped (i, v) t L R C Uav E) =
     Inr (if i \<le> 0 \<and> (E * Uav) / L + (1 - Uav) * v / L < 0 then 0
          else (E * Uav) / L + (1 - Uav) * v / L)"
  using assms by (simp add: buck_boost_clamped_eval di_dt_of_def)

text \<open>
  At \<open>i = 0\<close>, \<open>v = -1\<close>, \<open>E = 0\<close> the computed value is \<open>-500\<close> and is clamped;
  at \<open>i = 0\<close>, \<open>v = 0\<close>, \<open>E = 12\<close> it is \<open>6000\<close> and is returned as it is.
\<close>

theorem buck_boost_clamped_di_dt_clamp_witness:
  "di_dt_of (buck_boost_clamped (0, - 1) 0 (1 / 1000) 47 (50 / 1000000) (1 / 2) 0) = Inr 0
   \<and> di_dt_of (buck_boost_clamped (0, 0) 0 (1 / 1000) 47 (50 / 1000000) (1 / 2) 12) = Inr 6000"
  using buck_boost_clamped_di_dt_clamp [of "1 / 1000" 47 "50 / 1000000" 0 "- 1" 0 "1 / 2" 0]
        buck_boost_clamped_di_dt_clamp [of "1 / 1000" 47 "50 / 1000000" 0 0 0 "1 / 2" 12]
  by simp

text \<open>
  Claim C2.  For nonzero \<open>L\<close>, \<open>R\<close>, \<open>C\<close> and every \<open>i\<close>, whatever its sign,
  \<open>buck_boost_clamped\<close> returns the voltage derivative
  \<open>- (1 - Uav) * max i 0 / C - v / (R * C)\<close>, with \<open>max i 0\<close> in the place of \<open>i\<close>,
  while the current derivative is built from \<open>d = E * Uav / L + (1 - Uav) * v / L\<close>
  and the test \<open>i \<le> 0\<close> on the original current: \<open>max i 0\<close> occurs in the voltage
  equation only.
\<close>

theorem buck_boost_clamped_i_eff_in_dv_dt_only:
  assumes "L \<noteq> 0" and "R \<noteq> 0" and "C \<noteq> 0"
  shows "buck_boost_clamped (i, v) t L R C Uav E =
     (let d = E * Uav / L + (1 - Uav) * v / L in
      Inr (if i \<le> 0 \<and> d < 0 then 0 else d,
           - (1 - Uav) * max i 0 / C - v / (R * C)))"
  using assms by (simp add: buck_boost_clamped_eval Let_def)

text \<open>
  With \<open>v = 2\<close>: at \<open>i = -3\<close> the current term of the voltage derivative vanishes,
  at \<open>i = 3\<close> it is \<open>- (1 / 2) * 3 / (50 / 1000000) = -30000\<close>; the current
  derivative is \<open>7000\<close> in both.
\<close>

theorem buck_boost_clamped_i_eff_in_dv_dt_only_witness:
  "buck_boost_clamped (- 3, 2) 0 (1 / 1000) 47 (50 / 1000000) (1 / 2) 12
     = Inr (7000, - (40000 / 47))
   \<and> buck_boost_clamped (3, 2) 0 (1 / 1000) 47 (50 / 1000000) (1 / 2) 12
     = Inr (7000, - 30000 - 40000 / 47)"
  using buck_boost_clamped_i_eff_in_dv_dt_only [of "1 / 1000" 47 "50 / 1000000" "- 3" 2 0 "1 / 2" 12]
        buck_boost_clamped_i_eff_in_dv_dt_only [of "1 / 1000" 47 "50 / 1000000" 3 2 0 "1 / 2" 12]
  by (simp add: Let_def)



text \<open>
  Claim C4.  For nonzero \<open>L\<close>, \<open>R\<close>, \<open>C\<close>, \<open>buck_boost\<close> returns
  \<open>(E * Uav / L + (1 - Uav) * v / L, - (1 - Uav) * i / C - v / (R * C))\<close>.
\<close>

theorem buck_boost_formula:
  assumes "L \<noteq> 0" and "R \<noteq> 0" and "C \<noteq> 0"
  shows "buck_boost (i, v) t L R C Uav E =
     Inr (E * Uav / L + (1 - Uav) * v / L, - (1 - Uav) * i / C - v / (R * C))"
  using assms by (simp add: buck_boost_eval)

theorem buck_boost_formula_witness:
  "buck_boost (1, 2) 0 (1 / 1000) 47 (50 / 1000000) (1 / 2) 12
     = Inr (7000, - 10000 - 40000 / 47)"
  using buck_boost_formula [of "1 / 1000" 47 "50 / 1000000" 1 2 0 "1 / 2" 12]
  by simp

text \<open>
  Claim C5 says that a zero or negative \<open>L\<close>, \<open>R\<close> or \<open>C\<close> is rejected with an
  \<^verbatim>\<open>InvalidParameters\<close> failure before any derivative is evaluated, for all
  three variants.  The source has no such check and no such failure: \<^verbatim>\<open>main\<close>
  passes the parameters to the solver unexamined, and the derivative functions
  divide by them.  At the initial state \<open>(0, 0)\<close> of \<^verbatim>\<open>main\<close> and \<open>L = 0\<close>,
  each variant raises \<^verbatim>\<open>ZeroDivisionError\<close> from \<^verbatim>\<open>E * Uav / L\<close>; with
  \<open>L = -1e-3\<close>, \<open>buck\<close> returns a derivative.
\<close>

theorem no_parameter_check_counterexample:
  "buck (0, 0) 0 0 47 (50 / 1000000) (1 / 2) 12 = Inl ZeroDivisionError
   \<and> buck_boost (0, 0) 0 0 47 (50 / 1000000) (1 / 2) 12 = Inl ZeroDivisionError
   \<and> buck_boost_clamped (0, 0) 0 0 47 (50 / 1000000) (1 / 2) 12 = Inl ZeroDivisionError
   \<and> buck (0, 0) 0 (- (1 / 1000)) 47 (50 / 1000000) (1 / 2) 12 = Inr (- 6000, 0)"
  by (simp add: buck_eval buck_boost_eval buck_boost_clamped_eval)

text \<open>
  Claim C5, as the code has it.  For every variant, state, time and remaining
  parameters, a zero \<open>L\<close> makes the derivative function raise
  \<^verbatim>\<open>ZeroDivisionError\<close>: its first division is \<^verbatim>\<open>E * Uav / L\<close>.
\<close>

theorem derivative_models_raise_on_zero_L:
  "buck (i, v) t 0 R C Uav E = Inl ZeroDivisionError
   \<and> buck_boost (i, v) t 0 R C Uav E = Inl ZeroDivisionError
   \<and> buck_boost_clamped (i, v) t 0 R C Uav E = Inl ZeroDivisionError"
  by (simp add: buck_def buck_boost_def buck_boost_clamped_def and_then_def truediv_def)

text \<open>
  Claim C9 says that for \<open>i \<le> 0\<close> and nonzero \<open>L\<close> the returned current
  derivative is at least zero.  On floats the sum
  \<^verbatim>\<open>(E * Uav) / L + (1 - Uav) * v / L\<close> can be \<^verbatim>\<open>inf + -inf\<close>, which is
  \<^verbatim>\<open>nan\<close>; the test \<^verbatim>\<open>di_dt < 0.0\<close> is then false and \<^verbatim>\<open>nan\<close> is returned.
  This happens at \<open>i = 0.0\<close>, \<open>v = -1e308\<close>, \<open>L = 1e-10\<close>, \<open>R = C = 1\<close>,
  \<open>Uav = 0.5\<close>, \<open>E = 1e308\<close>: both quotients have magnitude \<open>5e317\<close> and
  overflow.
\<close>

theorem buck_boost_clamped_float_nan_counterexample:
  "fle (Fin 0) (Fin 0)
   \<and> buck_boost_clamped_float (Fin 0, Fin (- (10 ^ 308))) (Fin 0)
        (Fin (1 / 10 ^ 10)) (Fin 1) (Fin 1) (Fin (1 / 2)) (Fin (10 ^ 308))
      = Inr (NaN, Fin (10 ^ 308))
   \<and> \<not> fle (Fin 0) NaN"
  by (simp add: buck_boost_clamped_float_def and_then_def Let_def fsub_def pymax_def fl_def
      overflow_threshold_def underflow_threshold_def signed_inf_def)

text \<open>
  Claim C9, as the code has it.  For \<open>i \<le> 0\<close> and all parameters, whenever
  \<open>buck_boost_clamped\<close> returns, the returned current derivative is never below
  zero: it is \<^verbatim>\<open>nan\<close> or at least zero.
\<close>

theorem buck_boost_clamped_float_di_dt_not_negative:
  assumes "fle i (Fin 0)"
    and "buck_boost_clamped_float (i, v) t L R C Uav E = Inr (di_dt, dv_dt)"
  shows "di_dt = NaN \<or> fle (Fin 0) di_dt"
  using assms
  by (auto simp: buck_boost_clamped_float_def and_then_def Let_def
      split: sum.splits if_splits dest: not_flt_zero)

text \<open>
  At \<open>i = 0\<close>, \<open>v = -1\<close>, \<open>E = 0\<close> and the other parameters of \<^verbatim>\<open>main\<close> the
  call returns, with the computed \<open>-500\<close> clamped to zero.
\<close>

theorem buck_boost_clamped_float_di_dt_not_negative_witness:
  "fle (Fin 0) (Fin 0)
   \<and> buck_boost_clamped_float (Fin 0, Fin (- 1)) (Fin 0)
        (Fin (1 / 1000)) (Fin 47) (Fin (50 / 1000000)) (Fin (1 / 2)) (Fin 0)
      = Inr (Fin 0, Fin (20000 / 47))
   \<and> (Fin 0 = NaN \<or> fle (Fin 0) (Fin 0))"
proof -
  have le: "fle (Fin 0) (Fin 0)"
    by simp
  have run: "buck_boost_clamped_float (Fin 0, Fin (- 1)) (Fin 0)
        (Fin (1 / 1000)) (Fin 47) (Fin (50 / 1000000)) (Fin (1 / 2)) (Fin 0)
      = Inr (Fin 0, Fin (20000 / 47))"
    by (simp add: buck_boost_clamped_float_def and_then_def Let_def fsub_def pymax_def fl_def
        overflow_threshold_def underflow_threshold_def signed_inf_def)
  from buck_boost_clamped_float_di_dt_not_negative [OF le run] le run
  show ?thesis by blast
qed

text \<open>
  Claim C10.  For \<open>i > 0\<close> and nonzero \<open>L\<close>, \<open>R\<close>, \<open>C\<close>, \<open>buck_boost_clamped\<close>
  returns the pair that \<open>buck_boost\<close> returns, and \<open>buck_boost\<close> does return one.
\<close>

theorem buck_boost_clamped_eq_buck_boost:
  assumes "0 < i" and "L \<noteq> 0" and "R \<noteq> 0" and "C \<noteq> 0"
  shows "buck_boost_clamped (i, v) t L R C Uav E = buck_boost (i, v) t L R C Uav E
         \<and> \<not> isl (buck_boost (i, v) t L R C Uav E)"
  using assms by (simp add: buck_boost_clamped_eval buck_boost_eval max_def)

text \<open>At \<open>i = 3\<close>, \<open>v = -20\<close> the current derivative is negative and is not clamped.\<close>

theorem buck_boost_clamped_eq_buck_boost_witness:
  "buck_boost_clamped (3, - 20) 0 (1 / 1000) 47 (50 / 1000000) (1 / 2) 12
     = buck_boost (3, - 20) 0 (1 / 1000) 47 (50 / 1000000) (1 / 2) 12
   \<and> buck_boost (3, - 20) 0 (1 / 1000) 47 (50 / 1000000) (1 / 2) 12
     = Inr (- 4000, - 30000 + 400000 / 47)"
  using buck_boost_clamped_eq_buck_boost [of 3 "1 / 1000" 47 "50 / 1000000" "- 20" 0 "1 / 2" 12]
  by (simp add: buck_boost_eval)

end
